theory Spec2Isabelle
  imports Main
begin

section \<open>The Chankura gateway of tribeca\<close>

text \<open>
  A shallow embedding of the Chankura exchange gateway (the most complete of the three
  variants of the file: \<^verbatim>\<open>ChankuraHttp\<close>, \<^verbatim>\<open>ChankuraMarketDataGateway\<close>,
  \<^verbatim>\<open>ChankuraOrderEntryGateway\<close>, \<^verbatim>\<open>ChankuraPositionGateway\<close>).

  The gateway is asynchronous: a method dispatches an HTTP request and returns, and the
  callbacks chained on the promise run when the request completes. The model is an
  event-driven state machine. An input is a call from the outside (a timer tick, an order
  from the trading engine) or the completion of one request in flight; \<open>step\<close> runs the
  synchronous code that the input triggers. Every input carries the reading of the wall
  clock (milliseconds since the epoch) that the code makes while it runs. The
  connectivity events, which no state depends on, are left out.

  JavaScript names beginning with an underscore lose it (\<^verbatim>\<open>_nonce\<close> is \<open>nonce\<close>,
  \<^verbatim>\<open>_postOnce\<close> is \<open>postOnce\<close>). A \<^verbatim>\<open>number\<close> that counts (the nonce, a Unix
  time) is an \<open>int\<close>: the nonce starts at a \<^verbatim>\<open>Date\<close> value and grows by one per
  request, far inside the range in which a JavaScript number is an exact integer. A
  \<^verbatim>\<open>number\<close> that holds a price or a quantity is a value of the type parameter
  \<open>'num\<close>, produced and printed only by the platform (\<^verbatim>\<open>parseFloat\<close>,
  \<^verbatim>\<open>toString\<close>).
\<close>

subsection \<open>Models (common/models.ts)\<close>

text \<open>
  The declarations of \<^verbatim>\<open>Models\<close> are not among the files; the enumerations have the
  members the gateway names, and \<open>IOC\<close>, \<open>New\<close> stand for the members it does not name.
  The classes are built positionally, as the gateway's \<^verbatim>\<open>new Models.X(...)\<close> calls do.
\<close>

datatype Side = Bid | Ask | Unknown

datatype TimeInForce = IOC | FOK | GTC

datatype OrderType = Limit | Market

datatype OrderStatus = New | Working | Complete | Cancelled | Rejected | Other

datatype error = Error string

datatype 'num MarketSide = new_MarketSide 'num 'num

datatype 'num Market = new_Market "'num MarketSide list" "'num MarketSide list" int

datatype ('num, 'date) GatewayMarketTrade =
  new_GatewayMarketTrade 'num 'num 'date bool Side

datatype ('num, 'cur) CurrencyPosition = new_CurrencyPosition 'num 'num 'cur

datatype 'a Timestamped = new_Timestamped (data: 'a) (time: int)

record 'num OrderStatusReport =
  orderId :: string
  exchangeId :: "string option"
  price :: 'num
  quantity :: 'num
  side :: Side
  timeInForce :: TimeInForce
  type :: OrderType
  time :: int

text \<open>
  An \<^verbatim>\<open>OrderStatusUpdate\<close> is an object literal with some of the fields of a report;
  a field that the literal does not mention is \<open>None\<close>.
\<close>

record 'num OrderStatusUpdate =
  orderId :: "string option"
  exchangeId :: "string option"
  orderStatus :: "OrderStatus option"
  rejectMessage :: "string option"
  time :: "int option"
  computationalLatency :: "int option"
  cancelRejected :: "bool option"
  lastPrice :: "'num option"
  lastQuantity :: "'num option"
  averagePrice :: "'num option"
  leavesQuantity :: "'num option"
  cumQuantity :: "'num option"
  quantity :: "'num option"

definition no_fields :: "'num OrderStatusUpdate" where
  "no_fields =
     \<lparr> OrderStatusUpdate.orderId = None, OrderStatusUpdate.exchangeId = None,
       orderStatus = None, rejectMessage = None, OrderStatusUpdate.time = None,
       computationalLatency = None, cancelRejected = None, lastPrice = None,
       lastQuantity = None, averagePrice = None, leavesQuantity = None,
       cumQuantity = None, OrderStatusUpdate.quantity = None \<rparr>"

text \<open>The reverse mapping of a TypeScript enum: \<^verbatim>\<open>Models.TimeInForce[tif]\<close>.\<close>

fun TimeInForce_name :: "TimeInForce \<Rightarrow> string" where
  "TimeInForce_name IOC = ''IOC''"
| "TimeInForce_name FOK = ''FOK''"
| "TimeInForce_name GTC = ''GTC''"

fun OrderType_name :: "OrderType \<Rightarrow> string" where
  "OrderType_name Limit = ''Limit''"
| "OrderType_name Market = ''Market''"

text \<open>
  Modelled from the spec: \<^verbatim>\<open>Utils.fastDiff\<close> is not among the files (the
  \<^verbatim>\<open>utils.ts\<close> at hand predates it); the spec calls the latency the wall-clock delta
  from the creation of the intent to its submission.
\<close>

definition fastDiff :: "int \<Rightarrow> int \<Rightarrow> int" where
  "fastDiff x y = x - y"

subsection \<open>The venue's JSON shapes\<close>

record ChankuraPositionResponseItem =
  type :: string
  currency :: string
  amount :: string
  balance :: string
  locked :: string

record ChankuraMarketLevel =
  price :: string
  volume :: string

record ChankuraOrderBook =
  bids :: "ChankuraMarketLevel list"
  asks :: "ChankuraMarketLevel list"

text \<open>
  The gateway tests \<^verbatim>\<open>typeof resp.data.message !== "undefined"\<close>: a response may lack
  the field, and the venue's answer to a rejected order has no \<^verbatim>\<open>id\<close>.
\<close>

record ChankuraNewOrderResponse =
  id :: "string option"
  message :: "string option"

record ChankuraDeleteOrderResponse =
  message :: "string option"

record ChankuraMarketTrade =
  id :: string
  price :: string
  volume :: string
  market :: string
  created_at :: string
  side :: string

record ChankuraOrderStatusResponse =
  id :: string
  side :: string
  price :: string
  avg_price :: string
  state :: string
  market :: string
  created_at :: string
  volume :: string
  remaining_volume :: string
  executed_volume :: string
  trades :: "ChankuraMarketTrade list"

record ChankuraMyTradesResponse =
  id :: string
  price :: string
  volume :: string
  market :: string
  created_at :: string
  side :: string

text \<open>
  What \<^verbatim>\<open>JSON.parse\<close> gives for a body, at the type the caller declares for it.
  \<open>DeleteOrderResponse\<close> is also the shape of the venue's error object
  \<^verbatim>\<open>{message: ...}\<close>, which may answer any signed call.
\<close>

datatype payload =
    NewOrderResponse ChankuraNewOrderResponse
  | DeleteOrderResponse ChankuraDeleteOrderResponse
  | MyTradesResponse "ChankuraMyTradesResponse list"
  | OrderStatusResponse ChankuraOrderStatusResponse
  | MembersMeResponse "ChankuraPositionResponseItem list"
  | MarketTradesResponse "ChankuraMarketTrade list"
  | OrderBookResponse ChankuraOrderBook

text \<open>
  \<^verbatim>\<open>(<any>(resp.data)).message\<close>: the property \<^verbatim>\<open>message\<close> of the parsed body,
  \<open>None\<close> when it is \<^verbatim>\<open>undefined\<close>.
\<close>

fun message_of :: "payload \<Rightarrow> string option" where
  "message_of (NewOrderResponse r) = ChankuraNewOrderResponse.message r"
| "message_of (DeleteOrderResponse r) = ChankuraDeleteOrderResponse.message r"
| "message_of (MyTradesResponse ts) = None"
| "message_of (OrderStatusResponse r) = None"
| "message_of (MembersMeResponse ps) = None"
| "message_of (MarketTradesResponse ts) = None"
| "message_of (OrderBookResponse b) = None"

subsection \<open>The platform\<close>

text \<open>
  A value of a request object: a string, a number, or \<^verbatim>\<open>undefined\<close>. A request
  object is the list of its properties, in the order of the object literal.
\<close>

datatype qvalue = QStr string | QNum int | QUndefined

type_synonym msg = "(string \<times> qvalue) list"

text \<open>
  The library functions the gateway calls, as parameters: \<^verbatim>\<open>parseFloat\<close>,
  \<^verbatim>\<open>Number.prototype.toString\<close>, \<^verbatim>\<open>moment(s).toDate()\<close>,
  \<^verbatim>\<open>Models.toCurrency\<close>, \<^verbatim>\<open>querystring.stringify\<close>,
  \<^verbatim>\<open>crypto.createHmac("sha256", secret).update(payload).digest('hex')\<close> and
  \<^verbatim>\<open>JSON.parse\<close> (\<open>Inl\<close> the error it throws).
\<close>

record ('num, 'date, 'cur) platform =
  parseFloat :: "string \<Rightarrow> 'num"
  toString :: "'num \<Rightarrow> string"
  toDate :: "string \<Rightarrow> 'date"
  toCurrency :: "string \<Rightarrow> 'cur"
  stringify :: "msg \<Rightarrow> string"
  createHmac_sha256 :: "string \<Rightarrow> string \<Rightarrow> string"
  JSON_parse :: "string \<Rightarrow> error + payload"

text \<open>
  String concatenation with an integral number writes it in decimal:
  \<^verbatim>\<open>'&tonce=' + this._nonce\<close>.
\<close>

definition digit :: "int \<Rightarrow> char" where
  "digit d =
     (if d = 0 then CHR ''0'' else if d = 1 then CHR ''1'' else if d = 2 then CHR ''2''
      else if d = 3 then CHR ''3'' else if d = 4 then CHR ''4'' else if d = 5 then CHR ''5''
      else if d = 6 then CHR ''6'' else if d = 7 then CHR ''7'' else if d = 8 then CHR ''8''
      else CHR ''9'')"

function digits :: "int \<Rightarrow> string" where
  "digits n = (if n < 10 then [digit n] else digits (n div 10) @ [digit (n mod 10)])"
  by pat_completeness auto
termination
  by (relation "measure nat") auto

declare digits.simps [simp del]

definition number_string :: "int \<Rightarrow> string" where
  "number_string i = (if i < 0 then CHR ''-'' # digits (- i) else digits i)"

text \<open>
  \<^verbatim>\<open>s.indexOf(pat)\<close>: the position of the first occurrence of \<open>pat\<close> in \<open>s\<close>,
  or \<open>-1\<close>.
\<close>

fun indexOf_from :: "nat \<Rightarrow> string \<Rightarrow> string \<Rightarrow> int" where
  "indexOf_from i [] pat = (if pat = [] then int i else - 1)"
| "indexOf_from i (c # cs) pat =
     (if take (length pat) (c # cs) = pat then int i else indexOf_from (Suc i) cs pat)"

definition indexOf :: "string \<Rightarrow> string \<Rightarrow> int" where
  "indexOf s pat = indexOf_from 0 s pat"

subsection \<open>Helper functions\<close>

definition ConvertToMarketSide ::
  "('num, 'date, 'cur) platform \<Rightarrow> ChankuraMarketLevel \<Rightarrow> 'num MarketSide" where
  "ConvertToMarketSide env level =
     new_MarketSide (parseFloat env (ChankuraMarketLevel.price level))
                    (parseFloat env (ChankuraMarketLevel.volume level))"

definition ConvertToMarketSides ::
  "('num, 'date, 'cur) platform \<Rightarrow> ChankuraMarketLevel list \<Rightarrow> 'num MarketSide list" where
  "ConvertToMarketSides env level = map (ConvertToMarketSide env) level"

fun encodeSide :: "Side \<Rightarrow> string" where
  "encodeSide Bid = ''buy''"
| "encodeSide Ask = ''sell''"
| "encodeSide Unknown = ''''"

definition decodeSide :: "string \<Rightarrow> Side" where
  "decodeSide s = (if s = ''buy'' then Bid else if s = ''sell'' then Ask else Unknown)"

definition encodeTimeInForce :: "TimeInForce \<Rightarrow> OrderType \<Rightarrow> error + string" where
  "encodeTimeInForce tif ty =
     (let unsupported = Inl (Error (''unsupported tif '' @ TimeInForce_name tif
                                      @ '' and order type '' @ OrderType_name ty))
      in if ty = Market then Inr ''exchange market''
         else if ty = Limit then
           (if tif = FOK then Inr ''exchange fill-or-kill''
            else if tif = GTC then Inr ''exchange limit''
            else unsupported)
         else unsupported)"

definition getOrderStatus :: "ChankuraOrderStatusResponse \<Rightarrow> OrderStatus" where
  "getOrderStatus r =
     (if ChankuraOrderStatusResponse.state r = ''wait'' then Working
      else if ChankuraOrderStatusResponse.state r = ''cancel'' then Cancelled
      else if ChankuraOrderStatusResponse.state r = ''done'' then Complete
      else Other)"

subsection \<open>State\<close>

text \<open>
  \<^verbatim>\<open>config.GetString\<close>, the arguments of \<^verbatim>\<open>post\<close> (the logical request), the
  options handed to \<^verbatim>\<open>request\<close>, and a request as dispatched: for a signed call,
  with the arguments of the \<^verbatim>\<open>post\<close> that made it and the nonce it read.
\<close>

type_synonym config = "string \<Rightarrow> string"

record call =
  "method" :: string
  actionUrl :: string
  msg :: msg

record Options =
  timeout :: nat
  url :: string
  qs :: "msg option"
  "method" :: string

datatype dispatch = Get Options | Post Options call int

fun tonce :: "dispatch \<Rightarrow> int option" where
  "tonce (Get opts) = None"
| "tonce (Post opts c n) = Some n"

fun call_of :: "dispatch \<Rightarrow> call option" where
  "call_of (Get opts) = None"
| "call_of (Post opts c n) = Some c"

fun opts_of :: "dispatch \<Rightarrow> Options" where
  "opts_of (Get opts) = opts"
| "opts_of (Post opts c n) = opts"

record ChankuraHttp =
  baseUrl :: string
  apiKey :: string
  secret :: string
  nonce :: int

text \<open>
  The callback chained on a request's promise (\<^verbatim>\<open>.then(...)\<close>), with the variables
  its closure holds.
\<close>

datatype 'num callback =
    OnTrades
  | OnMarketData
  | SendOrderThen "'num OrderStatusReport"
  | CancelOrderThen "'num OrderStatusReport"
  | DownloadOrderStatusesThen
  | OrderStatusThen ChankuraMyTradesResponse
  | OnRefreshPositionsThen

datatype ('num, 'date, 'cur) event =
    MarketData "'num Market"
  | MarketTrade "('num, 'date) GatewayMarketTrade"
  | OrderUpdate "'num OrderStatusUpdate"
  | PositionUpdate "('num, 'cur) CurrencyPosition"

text \<open>
  The state of the gateway: the transport (shared by the three gateways), the symbol, the
  cursor of the market-trades poller (\<open>md_since\<close>, \<^verbatim>\<open>null\<close> at first) and of the
  order reconciliation (\<open>oe_since\<close>), and what the gateway has done so far: the requests
  it has dispatched, those still in flight (under their index in \<open>dispatched\<close>, with the
  callback that waits), the events it has triggered, and the errors that have left its
  code (thrown to the caller, or rethrown by \<^verbatim>\<open>done()\<close> for a rejected promise).
\<close>

record ('num, 'date, 'cur) gateway =
  http :: ChankuraHttp
  symbol :: string
  md_since :: "int option"
  oe_since :: int
  dispatched :: "dispatch list"
  in_flight :: "(nat \<times> dispatch \<times> 'num callback) list"
  emitted :: "('num, 'date, 'cur) event list"
  thrown :: "error list"

subsection \<open>ChankuraHttp\<close>

definition new_ChankuraHttp :: "config \<Rightarrow> int \<Rightarrow> ChankuraHttp" where
  "new_ChankuraHttp config now =
     \<lparr> baseUrl = config ''ChankuraHttpUrl'', apiKey = config ''ChankuraKey'',
       secret = config ''ChankuraSecret'', nonce = now \<rparr>"

definition postOnce ::
  "('num, 'date, 'cur) platform \<Rightarrow> ChankuraHttp \<Rightarrow> string \<Rightarrow> string \<Rightarrow> msg
     \<Rightarrow> Options \<times> ChankuraHttp" where
  "postOnce env h meth action m =
     (let params = ''access_key='' @ apiKey h @ ''&tonce='' @ number_string (nonce h) @ ''&'';
          query = stringify env m;
          payload = meth @ ''|api/v2'' @ action @ ''|'' @ params @ query;
          h' = h\<lparr>nonce := nonce h + 1\<rparr>;
          signature = createHmac_sha256 env (secret h) payload;
          url = baseUrl h @ ''/'' @ action @ ''?'' @ params @ query @ ''&signature'' @ signature
      in (\<lparr> timeout = 15000, url = url, qs = None, Options.method = meth \<rparr>, h'))"

text \<open>
  \<^verbatim>\<open>doRequest\<close> hands the options to \<^verbatim>\<open>request\<close> and returns the promise: the
  request is dispatched and is in flight, with the callback chained on the promise.
\<close>

definition doRequest ::
  "dispatch \<Rightarrow> 'num callback \<Rightarrow> ('num, 'date, 'cur) gateway \<Rightarrow> ('num, 'date, 'cur) gateway" where
  "doRequest d cb st =
     st\<lparr> dispatched := dispatched st @ [d],
         in_flight := in_flight st @ [(length (dispatched st), d, cb)] \<rparr>"

definition post ::
  "('num, 'date, 'cur) platform \<Rightarrow> string \<Rightarrow> string \<Rightarrow> msg \<Rightarrow> 'num callback
     \<Rightarrow> ('num, 'date, 'cur) gateway \<Rightarrow> ('num, 'date, 'cur) gateway" where
  "post env meth action m cb st =
     (let (opts, h') = postOnce env (http st) meth action m
      in doRequest (Post opts \<lparr> call.method = meth, actionUrl = action, msg = m \<rparr>
                      (nonce (http st))) cb (st\<lparr>http := h'\<rparr>))"

definition get ::
  "string \<Rightarrow> msg \<Rightarrow> 'num callback
     \<Rightarrow> ('num, 'date, 'cur) gateway \<Rightarrow> ('num, 'date, 'cur) gateway" where
  "get action q cb st =
     doRequest (Get \<lparr> timeout = 15000, url = baseUrl (http st) @ ''/'' @ action,
                      qs = Some q, Options.method = ''GET'' \<rparr>) cb st"

text \<open>
  The callback that \<^verbatim>\<open>doRequest\<close> gives to \<^verbatim>\<open>request\<close>: the promise is rejected
  with the error of the request or of \<^verbatim>\<open>JSON.parse\<close>, or resolved with the parsed
  body and the time of its receipt.
\<close>

datatype completion = RequestError error | Body string

definition settle ::
  "('num, 'date, 'cur) platform \<Rightarrow> int \<Rightarrow> completion \<Rightarrow> error + payload Timestamped" where
  "settle env t c =
     (case c of
        RequestError err \<Rightarrow> Inl err
      | Body body \<Rightarrow>
          (case JSON_parse env body of
             Inl err \<Rightarrow> Inl err
           | Inr d \<Rightarrow> Inr (new_Timestamped d t)))"

text \<open>The test of \<^verbatim>\<open>post\<close> on a response: is the nonce reported stale?\<close>

definition nonce_too_small :: "payload \<Rightarrow> bool" where
  "nonce_too_small d =
     (case message_of d of
        None \<Rightarrow> False
      | Some rejectMsg \<Rightarrow> indexOf rejectMsg ''Nonce is too small'' > - 1)"

subsection \<open>Events\<close>

text \<open>\<^verbatim>\<open>Evt.trigger\<close>: the event goes to the handlers; the model keeps it.\<close>

definition trigger ::
  "('num, 'date, 'cur) event \<Rightarrow> ('num, 'date, 'cur) gateway \<Rightarrow> ('num, 'date, 'cur) gateway" where
  "trigger ev st = st\<lparr>emitted := emitted st @ [ev]\<rparr>"

subsection \<open>ChankuraMarketDataGateway\<close>

definition onTrades ::
  "('num, 'date, 'cur) platform \<Rightarrow> int \<Rightarrow> ChankuraMarketTrade list Timestamped
     \<Rightarrow> ('num, 'date, 'cur) gateway \<Rightarrow> ('num, 'date, 'cur) gateway" where
  "onTrades env now resp st =
     (fold (\<lambda>trade.
              let px = parseFloat env (ChankuraMarketTrade.price trade);
                  sz = parseFloat env (ChankuraMarketTrade.volume trade);
                  time = toDate env (ChankuraMarketTrade.created_at trade);
                  side = decodeSide (ChankuraMarketTrade.side trade);
                  mt = new_GatewayMarketTrade px sz time (md_since st = None) side
              in trigger (MarketTrade mt))
           (data resp) st)
     \<lparr>md_since := Some (now div 1000)\<rparr>"

definition downloadMarketTrades ::
  "int \<Rightarrow> ('num, 'date, 'cur) gateway \<Rightarrow> ('num, 'date, 'cur) gateway" where
  "downloadMarketTrades now st =
     (let q = [(''market'', QStr (symbol st)),
               (''timestamp'', QNum (case md_since st of
                                       None \<Rightarrow> (now - 60 * 1000) div 1000
                                     | Some since \<Rightarrow> since))]
      in get ''trades.json'' q OnTrades st)"

definition onMarketData ::
  "('num, 'date, 'cur) platform \<Rightarrow> ChankuraOrderBook Timestamped
     \<Rightarrow> ('num, 'date, 'cur) gateway \<Rightarrow> ('num, 'date, 'cur) gateway" where
  "onMarketData env book st =
     (let bids = ConvertToMarketSides env (ChankuraOrderBook.bids (data book));
          asks = ConvertToMarketSides env (ChankuraOrderBook.asks (data book))
      in trigger (MarketData (new_Market bids asks (Timestamped.time book))) st)"

definition downloadMarketData ::
  "('num, 'date, 'cur) gateway \<Rightarrow> ('num, 'date, 'cur) gateway" where
  "downloadMarketData st =
     get ''order_book.json''
       [(''market'', QStr (symbol st)), (''bids_limit'', QNum 5), (''asks_limit'', QNum 5)]
       OnMarketData st"

subsection \<open>ChankuraOrderEntryGateway\<close>

definition convertToOrderRequest ::
  "('num, 'date, 'cur) platform \<Rightarrow> ('num, 'date, 'cur) gateway \<Rightarrow> 'num OrderStatusReport
     \<Rightarrow> error + msg" where
  "convertToOrderRequest env st order =
     (case encodeTimeInForce (timeInForce order) (OrderStatusReport.type order) of
        Inl err \<Rightarrow> Inl err
      | Inr ord_type \<Rightarrow>
          Inr [(''volume'', QStr (toString env (OrderStatusReport.quantity order))),
               (''price'', QStr (toString env (OrderStatusReport.price order))),
               (''side'', QStr (encodeSide (OrderStatusReport.side order))),
               (''market'', QStr (symbol st)),
               (''ord_type'', QStr ord_type)])"

text \<open>
  \<^verbatim>\<open>sendOrder\<close> throws what \<^verbatim>\<open>convertToOrderRequest\<close> throws, before it has done
  anything (\<open>Inl\<close>: the state is as it was). Otherwise it posts the order and triggers
  the latency update; the callback runs when the request completes.
\<close>

definition sendOrder ::
  "('num, 'date, 'cur) platform \<Rightarrow> int \<Rightarrow> 'num OrderStatusReport
     \<Rightarrow> ('num, 'date, 'cur) gateway \<Rightarrow> error + ('num, 'date, 'cur) gateway" where
  "sendOrder env now order st =
     (case convertToOrderRequest env st order of
        Inl err \<Rightarrow> Inl err
      | Inr req \<Rightarrow>
          Inr (trigger
                 (OrderUpdate (no_fields
                    \<lparr> OrderStatusUpdate.orderId := Some (OrderStatusReport.orderId order),
                      computationalLatency :=
                        Some (fastDiff now (OrderStatusReport.time order)) \<rparr>))
                 (post env ''POST'' ''orders.json'' req (SendOrderThen order) st)))"

definition sendOrder_then ::
  "'num OrderStatusReport \<Rightarrow> ChankuraNewOrderResponse Timestamped
     \<Rightarrow> ('num, 'date, 'cur) gateway \<Rightarrow> ('num, 'date, 'cur) gateway" where
  "sendOrder_then order resp st =
     (case ChankuraNewOrderResponse.message (data resp) of
        Some m \<Rightarrow>
          trigger (OrderUpdate (no_fields
            \<lparr> OrderStatusUpdate.orderId := Some (OrderStatusReport.orderId order),
              orderStatus := Some Rejected,
              rejectMessage := Some m,
              OrderStatusUpdate.time := Some (Timestamped.time resp) \<rparr>)) st
      | None \<Rightarrow>
          trigger (OrderUpdate (no_fields
            \<lparr> OrderStatusUpdate.orderId := Some (OrderStatusReport.orderId order),
              OrderStatusUpdate.exchangeId := ChankuraNewOrderResponse.id (data resp),
              orderStatus := Some Working,
              OrderStatusUpdate.time := Some (Timestamped.time resp) \<rparr>)) st)"

definition cancelOrder ::
  "('num, 'date, 'cur) platform \<Rightarrow> int \<Rightarrow> 'num OrderStatusReport
     \<Rightarrow> ('num, 'date, 'cur) gateway \<Rightarrow> ('num, 'date, 'cur) gateway" where
  "cancelOrder env now cancel st =
     (let req = [(''id'', case OrderStatusReport.exchangeId cancel of
                            None \<Rightarrow> QUndefined
                          | Some eid \<Rightarrow> QStr eid)]
      in trigger
           (OrderUpdate (no_fields
              \<lparr> OrderStatusUpdate.orderId := Some (OrderStatusReport.orderId cancel),
                computationalLatency :=
                  Some (fastDiff now (OrderStatusReport.time cancel)) \<rparr>))
           (post env ''POST'' ''order/delete.json'' req (CancelOrderThen cancel) st))"

definition cancelOrder_then ::
  "'num OrderStatusReport \<Rightarrow> ChankuraDeleteOrderResponse Timestamped
     \<Rightarrow> ('num, 'date, 'cur) gateway \<Rightarrow> ('num, 'date, 'cur) gateway" where
  "cancelOrder_then cancel resp st =
     (case ChankuraDeleteOrderResponse.message (data resp) of
        Some m \<Rightarrow>
          trigger (OrderUpdate (no_fields
            \<lparr> OrderStatusUpdate.orderId := Some (OrderStatusReport.orderId cancel),
              orderStatus := Some Rejected,
              rejectMessage := Some m,
              OrderStatusUpdate.time := Some (Timestamped.time resp),
              cancelRejected := Some True \<rparr>)) st
      | None \<Rightarrow>
          trigger (OrderUpdate (no_fields
            \<lparr> OrderStatusUpdate.orderId := Some (OrderStatusReport.orderId cancel),
              orderStatus := Some Cancelled,
              OrderStatusUpdate.time := Some (Timestamped.time resp) \<rparr>)) st)"

text \<open>
  \<^verbatim>\<open>replaceOrder\<close> cancels, then sends: when \<^verbatim>\<open>sendOrder\<close> throws, the cancel has
  been posted already.
\<close>

definition replaceOrder ::
  "('num, 'date, 'cur) platform \<Rightarrow> int \<Rightarrow> 'num OrderStatusReport
     \<Rightarrow> ('num, 'date, 'cur) gateway \<Rightarrow> error option \<times> ('num, 'date, 'cur) gateway" where
  "replaceOrder env now replace st =
     (let st1 = cancelOrder env now replace st
      in case sendOrder env now replace st1 of
           Inl err \<Rightarrow> (Some err, st1)
         | Inr st2 \<Rightarrow> (None, st2))"

definition downloadOrderStatuses ::
  "('num, 'date, 'cur) platform \<Rightarrow> int
     \<Rightarrow> ('num, 'date, 'cur) gateway \<Rightarrow> ('num, 'date, 'cur) gateway" where
  "downloadOrderStatuses env now st =
     (let tradesReq = [(''timestamp'', QNum (oe_since st div 1000)),
                       (''market'', QStr (symbol st))]
      in (post env ''GET'' ''trades/my.json'' tradesReq DownloadOrderStatusesThen st)
         \<lparr>oe_since := now\<rparr>)"

definition downloadOrderStatuses_then ::
  "('num, 'date, 'cur) platform \<Rightarrow> ChankuraMyTradesResponse list Timestamped
     \<Rightarrow> ('num, 'date, 'cur) gateway \<Rightarrow> ('num, 'date, 'cur) gateway" where
  "downloadOrderStatuses_then env resps st =
     fold (\<lambda>trade. post env ''GET'' ''order.json''
                     [(''id'', QStr (ChankuraMyTradesResponse.id trade))]
                     (OrderStatusThen trade))
          (data resps) st"

definition orderStatus_then ::
  "('num, 'date, 'cur) platform \<Rightarrow> ChankuraMyTradesResponse
     \<Rightarrow> ChankuraOrderStatusResponse Timestamped
     \<Rightarrow> ('num, 'date, 'cur) gateway \<Rightarrow> ('num, 'date, 'cur) gateway" where
  "orderStatus_then env trade r st =
     trigger (OrderUpdate (no_fields
       \<lparr> OrderStatusUpdate.exchangeId := Some (ChankuraMyTradesResponse.id trade),
         orderStatus := Some (getOrderStatus (data r)),
         lastPrice := Some (parseFloat env (ChankuraMyTradesResponse.price trade)),
         lastQuantity := Some (parseFloat env (ChankuraMyTradesResponse.volume trade)),
         averagePrice := Some (parseFloat env (avg_price (data r))),
         leavesQuantity := Some (parseFloat env (remaining_volume (data r))),
         cumQuantity := Some (parseFloat env (executed_volume (data r))),
         OrderStatusUpdate.quantity :=
           Some (parseFloat env (ChankuraOrderStatusResponse.volume (data r))) \<rparr>)) st"

subsection \<open>ChankuraPositionGateway\<close>

definition onRefreshPositions ::
  "('num, 'date, 'cur) platform
     \<Rightarrow> ('num, 'date, 'cur) gateway \<Rightarrow> ('num, 'date, 'cur) gateway" where
  "onRefreshPositions env st =
     post env ''GET'' ''/members/me.json'' [] OnRefreshPositionsThen st"

definition onRefreshPositions_then ::
  "('num, 'date, 'cur) platform \<Rightarrow> ChankuraPositionResponseItem list Timestamped
     \<Rightarrow> ('num, 'date, 'cur) gateway \<Rightarrow> ('num, 'date, 'cur) gateway" where
  "onRefreshPositions_then env res st =
     fold (\<lambda>p. let amt = parseFloat env (balance p);
                   cur = toCurrency env (currency p);
                   held = parseFloat env (locked p);
                   rpt = new_CurrencyPosition amt held cur
               in trigger (PositionUpdate rpt))
          (data res) st"

subsection \<open>The gateway as a state machine\<close>

text \<open>
  A resolved promise runs the callback chained on it, on the body parsed at the type the
  caller declared (\<^verbatim>\<open>post<TRequest, TResponse>\<close>). The TypeScript declarations
  exclude a body of another shape; the model says nothing about it (\<open>None\<close>).
\<close>

fun run_callback ::
  "('num, 'date, 'cur) platform \<Rightarrow> int \<Rightarrow> 'num callback \<Rightarrow> payload Timestamped
     \<Rightarrow> ('num, 'date, 'cur) gateway \<Rightarrow> ('num, 'date, 'cur) gateway option" where
  "run_callback env now OnTrades (new_Timestamped (MarketTradesResponse d) t) st =
     Some (onTrades env now (new_Timestamped d t) st)"
| "run_callback env now OnMarketData (new_Timestamped (OrderBookResponse d) t) st =
     Some (onMarketData env (new_Timestamped d t) st)"
| "run_callback env now (SendOrderThen order) (new_Timestamped (NewOrderResponse d) t) st =
     Some (sendOrder_then order (new_Timestamped d t) st)"
| "run_callback env now (CancelOrderThen cancel) (new_Timestamped (DeleteOrderResponse d) t) st =
     Some (cancelOrder_then cancel (new_Timestamped d t) st)"
| "run_callback env now DownloadOrderStatusesThen (new_Timestamped (MyTradesResponse d) t) st =
     Some (downloadOrderStatuses_then env (new_Timestamped d t) st)"
| "run_callback env now (OrderStatusThen trade) (new_Timestamped (OrderStatusResponse d) t) st =
     Some (orderStatus_then env trade (new_Timestamped d t) st)"
| "run_callback env now OnRefreshPositionsThen (new_Timestamped (MembersMeResponse d) t) st =
     Some (onRefreshPositions_then env (new_Timestamped d t) st)"
| "run_callback env now cb resp st = None"

text \<open>
  The completion of the request dispatched as number \<open>rid\<close>, received at time \<open>t\<close>.
  A rejected promise skips the callbacks and \<^verbatim>\<open>done()\<close> rethrows its error. A
  resolved promise of \<^verbatim>\<open>get\<close> runs its callback. A resolved promise of
  \<^verbatim>\<open>post\<close> is first examined by \<^verbatim>\<open>post\<close>: when the nonce is reported stale,
  \<^verbatim>\<open>post\<close> calls itself with the same arguments and the caller's callback waits for
  the new request; otherwise the callback runs. When no request is in flight under
  \<open>rid\<close>, no code runs.
\<close>

definition complete ::
  "('num, 'date, 'cur) platform \<Rightarrow> int \<Rightarrow> nat \<Rightarrow> int \<Rightarrow> completion
     \<Rightarrow> ('num, 'date, 'cur) gateway \<Rightarrow> ('num, 'date, 'cur) gateway option" where
  "complete env now rid t c st =
     (case map_of (in_flight st) rid of
        None \<Rightarrow> Some st
      | Some (d, cb) \<Rightarrow>
          (let st1 = st\<lparr>in_flight := filter (\<lambda>e. fst e \<noteq> rid) (in_flight st)\<rparr>
           in case settle env t c of
                Inl err \<Rightarrow> Some (st1\<lparr>thrown := thrown st1 @ [err]\<rparr>)
              | Inr resp \<Rightarrow>
                  (case call_of d of
                     None \<Rightarrow> run_callback env now cb resp st1
                   | Some c \<Rightarrow>
                       if nonce_too_small (data resp)
                       then Some (post env (call.method c) (actionUrl c) (msg c) cb st1)
                       else run_callback env now cb resp st1)))"

datatype 'num input =
    DownloadMarketData
  | DownloadMarketTrades
  | DownloadOrderStatuses
  | OnRefreshPositions
  | SendOrder "'num OrderStatusReport"
  | CancelOrder "'num OrderStatusReport"
  | ReplaceOrder "'num OrderStatusReport"
  | Completion nat int completion

fun raise ::
  "error option \<Rightarrow> ('num, 'date, 'cur) gateway \<Rightarrow> ('num, 'date, 'cur) gateway" where
  "raise None st = st"
| "raise (Some err) st = st\<lparr>thrown := thrown st @ [err]\<rparr>"

fun step ::
  "('num, 'date, 'cur) platform \<Rightarrow> ('num, 'date, 'cur) gateway \<Rightarrow> int \<times> 'num input
     \<Rightarrow> ('num, 'date, 'cur) gateway option" where
  "step env st (now, DownloadMarketData) = Some (downloadMarketData st)"
| "step env st (now, DownloadMarketTrades) = Some (downloadMarketTrades now st)"
| "step env st (now, DownloadOrderStatuses) = Some (downloadOrderStatuses env now st)"
| "step env st (now, OnRefreshPositions) = Some (onRefreshPositions env st)"
| "step env st (now, SendOrder order) =
     (case sendOrder env now order st of
        Inl err \<Rightarrow> Some (raise (Some err) st)
      | Inr st' \<Rightarrow> Some st')"
| "step env st (now, CancelOrder cancel) = Some (cancelOrder env now cancel st)"
| "step env st (now, ReplaceOrder replace) =
     (case replaceOrder env now replace st of (err, st') \<Rightarrow> Some (raise err st'))"
| "step env st (now, Completion rid t c) = complete env now rid t c st"

fun run ::
  "('num, 'date, 'cur) platform \<Rightarrow> ('num, 'date, 'cur) gateway \<Rightarrow> (int \<times> 'num input) list
     \<Rightarrow> ('num, 'date, 'cur) gateway option" where
  "run env st [] = Some st"
| "run env st (i # inputs) =
     (case step env st i of
        None \<Rightarrow> None
      | Some st' \<Rightarrow> run env st' inputs)"

text \<open>
  The constructor of \<^verbatim>\<open>Chankura\<close>, with the order gateway in place: the transport
  takes its nonce from the clock, the order gateway its cursor; the market data gateway
  downloads the book and the trades, the position gateway the balances.
\<close>

definition new_Chankura ::
  "('num, 'date, 'cur) platform \<Rightarrow> config \<Rightarrow> string \<Rightarrow> int \<Rightarrow> ('num, 'date, 'cur) gateway" where
  "new_Chankura env config pair_symbol now =
     onRefreshPositions env
       (downloadMarketTrades now
          (downloadMarketData
             \<lparr> http = new_ChankuraHttp config now, symbol = pair_symbol, md_since = None,
               oe_since = now, dispatched = [], in_flight = [], emitted = [],
               thrown = [] \<rparr>))"

subsection \<open>A platform for evaluation\<close>

text \<open>
  The theorems hold for every platform. To run the gateway on concrete inputs, here is a
  platform whose numbers, dates and currencies are the strings they are read from, whose
  query strings are not escaped, whose digest is the text of its arguments, and whose
  \<^verbatim>\<open>JSON.parse\<close> looks the body up in a table.
\<close>

fun demo_value :: "qvalue \<Rightarrow> string" where
  "demo_value (QStr s) = s"
| "demo_value (QNum n) = number_string n"
| "demo_value QUndefined = []"

fun demo_stringify :: "msg \<Rightarrow> string" where
  "demo_stringify [] = []"
| "demo_stringify [(k, v)] = k @ ''='' @ demo_value v"
| "demo_stringify ((k, v) # kvs) = k @ ''='' @ demo_value v @ ''&'' @ demo_stringify kvs"

definition demo_platform :: "(string \<times> payload) list \<Rightarrow> (string, string, string) platform" where
  "demo_platform bodies =
     \<lparr> parseFloat = (\<lambda>s. s), toString = (\<lambda>s. s), toDate = (\<lambda>s. s), toCurrency = (\<lambda>s. s),
       stringify = demo_stringify,
       createHmac_sha256 = (\<lambda>key payload. ''hmac('' @ key @ '','' @ payload @ '')''),
       JSON_parse = (\<lambda>body. case map_of bodies body of
                                 None \<Rightarrow> Inl (Error ''SyntaxError'')
                               | Some d \<Rightarrow> Inr d) \<rparr>"

definition demo_config :: config where
  "demo_config k =
     (if k = ''ChankuraHttpUrl'' then ''https://venue/api/v2''
      else if k = ''ChankuraKey'' then ''key''
      else if k = ''ChankuraSecret'' then ''secret''
      else [])"

definition demo_book :: ChankuraOrderBook where
  "demo_book =
     \<lparr> bids = [\<lparr> ChankuraMarketLevel.price = ''100.5'', volume = ''2'' \<rparr>],
       asks = [\<lparr> ChankuraMarketLevel.price = ''101.0'', volume = ''1'' \<rparr>] \<rparr>"

definition demo_trade :: ChankuraMarketTrade where
  "demo_trade =
     \<lparr> ChankuraMarketTrade.id = ''1'', price = ''50'', volume = ''0.1'', market = ''btczar'',
       created_at = ''2024-01-01T00:00:00Z'', side = ''buy'' \<rparr>"

definition demo_fill :: ChankuraMyTradesResponse where
  "demo_fill =
     \<lparr> ChankuraMyTradesResponse.id = ''7'', price = ''3100'', volume = ''10.2'',
       market = ''btczar'', created_at = ''2014-04-18T02:04:49Z'', side = ''sell'' \<rparr>"

definition demo_detail :: ChankuraOrderStatusResponse where
  "demo_detail =
     \<lparr> ChankuraOrderStatusResponse.id = ''7'', side = ''sell'', price = ''3100'',
       avg_price = ''3099.5'', state = ''done'', market = ''btczar'',
       created_at = ''2014-04-18T02:02:33Z'', volume = ''10.2'', remaining_volume = ''0.0'',
       executed_volume = ''10.2'', trades = [] \<rparr>"

definition demo_bodies :: "(string \<times> payload) list" where
  "demo_bodies =
     [(''book'', OrderBookResponse demo_book),
      (''trades'', MarketTradesResponse [demo_trade]),
      (''stale'', DeleteOrderResponse \<lparr> message = Some ''error: Nonce is too small'' \<rparr>),
      (''rejected'', NewOrderResponse \<lparr> ChankuraNewOrderResponse.id = None,
                                      ChankuraNewOrderResponse.message = Some ''insufficient funds'' \<rparr>),
      (''accepted'', NewOrderResponse \<lparr> ChankuraNewOrderResponse.id = Some ''7'',
                                      ChankuraNewOrderResponse.message = None \<rparr>),
      (''deleted'', DeleteOrderResponse \<lparr> message = None \<rparr>),
      (''fills'', MyTradesResponse [demo_fill]),
      (''detail'', OrderStatusResponse demo_detail)]"

definition demo_env :: "(string, string, string) platform" where
  "demo_env = demo_platform demo_bodies"

definition demo_gateway :: "(string, string, string) gateway" where
  "demo_gateway = new_Chankura demo_env demo_config ''btczar'' 170123"

definition demo_order :: "TimeInForce \<Rightarrow> OrderType \<Rightarrow> string option \<Rightarrow> string OrderStatusReport" where
  "demo_order tif ty eid =
     \<lparr> OrderStatusReport.orderId = ''o1'', exchangeId = eid, price = ''10'', quantity = ''2'',
       side = Bid, timeInForce = tif, type = ty, time = 185990 \<rparr>"



definition demo_submitted :: "(string, string, string) gateway" where
  "demo_submitted =
     trigger (OrderUpdate (no_fields \<lparr> OrderStatusUpdate.orderId := Some ''o1'',
                                        computationalLatency := Some 10 \<rparr>))
       (post demo_env ''POST'' ''orders.json''
          [(''volume'', QStr ''2''), (''price'', QStr ''10''), (''side'', QStr ''buy''),
           (''market'', QStr ''btczar''), (''ord_type'', QStr ''exchange limit'')]
          (SendOrderThen (demo_order GTC Limit None)) demo_gateway)"

subsection \<open>Views of the state\<close>

text \<open>The nonces of the signed requests dispatched so far, in the order of dispatch.\<close>

fun tonces :: "dispatch list \<Rightarrow> int list" where
  "tonces [] = []"
| "tonces (Get opts # ds) = tonces ds"
| "tonces (Post opts c n # ds) = n # tonces ds"

text \<open>
  What holds of the state whatever happens: the nonces used so far are the integers from
  the seed up to the transport's nonce; a request in flight is the one dispatched under
  its number; and the options of a signed request are those \<open>postOnce\<close> computes from
  the arguments of \<open>post\<close> and the nonce recorded with it.
\<close>

definition wf :: "('num, 'date, 'cur) platform \<Rightarrow> int \<Rightarrow> ('num, 'date, 'cur) gateway \<Rightarrow> bool" where
  "wf env seed st \<longleftrightarrow>
     seed \<le> nonce (http st)
   \<and> tonces (dispatched st) = [seed..nonce (http st) - 1]
   \<and> (\<forall>e \<in> set (in_flight st).
         fst e < length (dispatched st) \<and> fst (snd e) = dispatched st ! fst e)
   \<and> (\<forall>d \<in> set (dispatched st). \<forall>c n.
         call_of d = Some c \<and> tonce d = Some n \<longrightarrow>
           opts_of d = fst (postOnce env ((http st)\<lparr>nonce := n\<rparr>)
                              (call.method c) (actionUrl c) (msg c)))"

text \<open>
  The batch of trades that an input makes the gateway process, if it does: the input is
  the completion of a request on whose promise \<open>onTrades\<close> waits, with a body that
  parses to a list of trades.
\<close>

definition trades_batch ::
  "('num, 'date, 'cur) platform \<Rightarrow> ('num, 'date, 'cur) gateway \<Rightarrow> int \<times> 'num input
     \<Rightarrow> ChankuraMarketTrade list option" where
  "trades_batch env st i =
     (case snd i of
        Completion rid t (Body body) \<Rightarrow>
          (case map_of (in_flight st) rid of
             Some (d, OnTrades) \<Rightarrow>
               (case JSON_parse env body of
                  Inr (MarketTradesResponse batch) \<Rightarrow> Some batch
                | _ \<Rightarrow> None)
           | _ \<Rightarrow> None)
      | _ \<Rightarrow> None)"

text \<open>The number of batches of trades that the gateway processes in a run.\<close>

fun batches ::
  "('num, 'date, 'cur) platform \<Rightarrow> ('num, 'date, 'cur) gateway \<Rightarrow> (int \<times> 'num input) list
     \<Rightarrow> nat" where
  "batches env st [] = 0"
| "batches env st (i # inputs) =
     (case step env st i of
        None \<Rightarrow> 0
      | Some st' \<Rightarrow>
          (case trades_batch env st i of None \<Rightarrow> 0 | Some batch \<Rightarrow> 1)
          + batches env st' inputs)"

text \<open>
  What a step never undoes: a cursor of the market-trades poller that is set stays set,
  and the events, the errors and the requests are only ever added to.
\<close>
definition grows :: "('num, 'date, 'cur) gateway \<Rightarrow> ('num, 'date, 'cur) gateway \<Rightarrow> bool" where
  "grows st st' \<longleftrightarrow>
     (md_since st \<noteq> None \<longrightarrow> md_since st' \<noteq> None)
   \<and> take (length (emitted st)) (emitted st') = emitted st
   \<and> take (length (thrown st)) (thrown st') = thrown st
   \<and> take (length (dispatched st)) (dispatched st') = dispatched st"

section \<open>Properties\<close>

subsection \<open>Projections of the basic operations\<close>

lemma fold_preserves: "(\<And>x s. P s \<Longrightarrow> P (f x s)) \<Longrightarrow> P s \<Longrightarrow> P (fold f xs s)"
  by (induction xs arbitrary: s) auto

lemma postOnce_snd [simp]: "snd (postOnce env h meth action m) = h\<lparr>nonce := nonce h + 1\<rparr>"
  by (simp add: postOnce_def Let_def)

lemma trigger_frame [simp]:
  "http (trigger ev st) = http st"
  "symbol (trigger ev st) = symbol st"
  "md_since (trigger ev st) = md_since st"
  "oe_since (trigger ev st) = oe_since st"
  "dispatched (trigger ev st) = dispatched st"
  "in_flight (trigger ev st) = in_flight st"
  "thrown (trigger ev st) = thrown st"
  "emitted (trigger ev st) = emitted st @ [ev]"
  by (simp_all add: trigger_def)

lemma doRequest_frame [simp]:
  "http (doRequest d cb st) = http st"
  "symbol (doRequest d cb st) = symbol st"
  "md_since (doRequest d cb st) = md_since st"
  "oe_since (doRequest d cb st) = oe_since st"
  "dispatched (doRequest d cb st) = dispatched st @ [d]"
  "in_flight (doRequest d cb st) = in_flight st @ [(length (dispatched st), d, cb)]"
  "thrown (doRequest d cb st) = thrown st"
  "emitted (doRequest d cb st) = emitted st"
  by (simp_all add: doRequest_def)

lemma post_frame [simp]:
  "http (post env meth action m cb st) = (http st)\<lparr>nonce := nonce (http st) + 1\<rparr>"
  "symbol (post env meth action m cb st) = symbol st"
  "md_since (post env meth action m cb st) = md_since st"
  "oe_since (post env meth action m cb st) = oe_since st"
  "dispatched (post env meth action m cb st) =
     dispatched st @ [Post (fst (postOnce env (http st) meth action m))
                        \<lparr> call.method = meth, actionUrl = action, msg = m \<rparr> (nonce (http st))]"
  "in_flight (post env meth action m cb st) =
     in_flight st @ [(length (dispatched st),
                      Post (fst (postOnce env (http st) meth action m))
                        \<lparr> call.method = meth, actionUrl = action, msg = m \<rparr> (nonce (http st)), cb)]"
  "thrown (post env meth action m cb st) = thrown st"
  "emitted (post env meth action m cb st) = emitted st"
  by (simp_all add: post_def split_beta Let_def postOnce_def)

lemma get_frame [simp]:
  "http (get action q cb st) = http st"
  "symbol (get action q cb st) = symbol st"
  "md_since (get action q cb st) = md_since st"
  "oe_since (get action q cb st) = oe_since st"
  "dispatched (get action q cb st) =
     dispatched st @ [Get \<lparr> timeout = 15000, url = baseUrl (http st) @ ''/'' @ action,
                             qs = Some q, Options.method = ''GET'' \<rparr>]"
  "in_flight (get action q cb st) =
     in_flight st @ [(length (dispatched st),
                      Get \<lparr> timeout = 15000, url = baseUrl (http st) @ ''/'' @ action,
                             qs = Some q, Options.method = ''GET'' \<rparr>, cb)]"
  "thrown (get action q cb st) = thrown st"
  "emitted (get action q cb st) = emitted st"
  by (simp_all add: get_def)

subsection \<open>The completion of a request\<close>


lemma complete_resolved:
  "map_of (in_flight st) rid = Some (d, cb) \<Longrightarrow> JSON_parse env body = Inr p \<Longrightarrow>
   complete env now rid t (Body body) st =
     (if call_of d \<noteq> None \<and> nonce_too_small p
      then Some (post env (call.method (the (call_of d))) (actionUrl (the (call_of d)))
                   (msg (the (call_of d))) cb
                   (st\<lparr>in_flight := filter (\<lambda>e. fst e \<noteq> rid) (in_flight st)\<rparr>))
      else run_callback env now cb (new_Timestamped p t)
             (st\<lparr>in_flight := filter (\<lambda>e. fst e \<noteq> rid) (in_flight st)\<rparr>))"
  by (auto simp add: complete_def settle_def Let_def split: option.splits)

lemma demo_gateway_book_in_flight:
  "map_of (in_flight demo_gateway) 0 = Some (dispatched demo_gateway ! 0, OnMarketData)"
  by (simp add: demo_gateway_def new_Chankura_def onRefreshPositions_def
      downloadMarketTrades_def downloadMarketData_def nth_append)

lemma demo_parse_book: "JSON_parse demo_env ''book'' = Inr (OrderBookResponse demo_book)"
  by (simp add: demo_env_def demo_platform_def demo_bodies_def)

lemma demo_gateway_emitted: "emitted demo_gateway = []"
  by (simp add: demo_gateway_def new_Chankura_def onRefreshPositions_def
      downloadMarketTrades_def downloadMarketData_def)

subsection \<open>The order book\<close>

text \<open>
  C10. When the order-book request completes with a body that parses to a book, the
  gateway emits exactly one \<open>MarketData\<close> event: the bids and the asks of the response,
  level by level in the venue's order, each with the price and the volume that
  \<^verbatim>\<open>parseFloat\<close> reads from the venue's strings, and the time of receipt of the
  response. The event is a function of the response alone: nothing of the state, and so
  nothing of an earlier book, enters it. Nothing else changes but that the request is no
  longer in flight.
\<close>

theorem onMarketData_emits_the_book:
  assumes "map_of (in_flight st) rid = Some (d, OnMarketData)"
      and "JSON_parse env body = Inr (OrderBookResponse book)"
  shows "step env st (now, Completion rid t (Body body)) =
           Some (st\<lparr> in_flight := filter (\<lambda>e. fst e \<noteq> rid) (in_flight st),
                      emitted := emitted st @
                        [MarketData (new_Market
                           (map (\<lambda>level. new_MarketSide
                                    (parseFloat env (ChankuraMarketLevel.price level))
                                    (parseFloat env (ChankuraMarketLevel.volume level)))
                                (bids book))
                           (map (\<lambda>level. new_MarketSide
                                    (parseFloat env (ChankuraMarketLevel.price level))
                                    (parseFloat env (ChankuraMarketLevel.volume level)))
                                (asks book))
                           t)] \<rparr>)"
proof -
  have "nonce_too_small (OrderBookResponse book) = False"
    by (simp add: nonce_too_small_def)
  then show ?thesis
    using assms
    by (simp add: complete_resolved onMarketData_def trigger_def ConvertToMarketSides_def
        ConvertToMarketSide_def)
qed

theorem onMarketData_emits_the_book_witness:
  "map_of (in_flight demo_gateway) 0 = Some (dispatched demo_gateway ! 0, OnMarketData)
   \<and> JSON_parse demo_env ''book'' = Inr (OrderBookResponse demo_book)
   \<and> map_option emitted (step demo_env demo_gateway (171000, Completion 0 170900 (Body ''book'')))
       = Some [MarketData (new_Market [new_MarketSide ''100.5'' ''2'']
                                      [new_MarketSide ''101.0'' ''1''] 170900)]"
  using onMarketData_emits_the_book
          [OF demo_gateway_book_in_flight demo_parse_book, of 171000 170900]
        demo_gateway_book_in_flight demo_parse_book demo_gateway_emitted
  by (simp add: demo_book_def demo_env_def demo_platform_def)

subsection \<open>What every reachable state satisfies\<close>

lemma tonces_append [simp]: "tonces (ds @ es) = tonces ds @ tonces es"
  by (induction ds rule: tonces.induct) simp_all

lemma wf_cong:
  "http st' = http st \<Longrightarrow> dispatched st' = dispatched st
   \<Longrightarrow> set (in_flight st') \<subseteq> set (in_flight st)
   \<Longrightarrow> wf env seed st \<Longrightarrow> wf env seed st'"
  unfolding wf_def by auto

lemma wf_trigger: "wf env seed st \<Longrightarrow> wf env seed (trigger ev st)"
  by (rule wf_cong [where st = st]) simp_all

lemma wf_get: "wf env seed st \<Longrightarrow> wf env seed (get action q cb st)"
  unfolding wf_def
  by (auto simp add: nth_append)

lemma wf_post: "wf env seed st \<Longrightarrow> wf env seed (post env meth action m cb st)"
  unfolding wf_def
  apply (intro conjI)
     apply simp
    apply (simp add: upto_rec2)
   apply (auto simp add: nth_append)[1]
  apply (auto simp add: nth_append)
  done


lemma wf_updates [simp]:
  "wf env seed (st\<lparr>md_since := a\<rparr>) = wf env seed st"
  "wf env seed (st\<lparr>oe_since := b\<rparr>) = wf env seed st"
  "wf env seed (st\<lparr>emitted := evs\<rparr>) = wf env seed st"
  "wf env seed (st\<lparr>thrown := errs\<rparr>) = wf env seed st"
  by (simp_all add: wf_def)

lemma wf_filter:
  "wf env seed st \<Longrightarrow> wf env seed (st\<lparr>in_flight := filter P (in_flight st)\<rparr>)"
  by (simp add: wf_def)

lemma wf_raise: "wf env seed st \<Longrightarrow> wf env seed (raise err st)"
  by (cases err) simp_all

lemma wf_onTrades: "wf env seed st \<Longrightarrow> wf env seed (onTrades env now resp st)"
  by (simp add: onTrades_def Let_def fold_preserves wf_trigger)

lemma wf_onMarketData: "wf env seed st \<Longrightarrow> wf env seed (onMarketData env book st)"
  by (simp add: onMarketData_def Let_def wf_trigger)

lemma wf_sendOrder:
  "wf env seed st \<Longrightarrow> sendOrder env now order st = Inr st' \<Longrightarrow> wf env seed st'"
  by (auto simp add: sendOrder_def wf_trigger wf_post split: sum.splits)

lemma wf_sendOrder_then: "wf env seed st \<Longrightarrow> wf env seed (sendOrder_then order resp st)"
  by (simp add: sendOrder_then_def wf_trigger split: option.splits)

lemma wf_cancelOrder: "wf env seed st \<Longrightarrow> wf env seed (cancelOrder env now cancel st)"
  by (simp add: cancelOrder_def Let_def wf_trigger wf_post)

lemma wf_cancelOrder_then: "wf env seed st \<Longrightarrow> wf env seed (cancelOrder_then cancel resp st)"
  by (simp add: cancelOrder_then_def wf_trigger split: option.splits)

lemma wf_replaceOrder:
  "wf env seed st \<Longrightarrow> replaceOrder env now replace st = (err, st') \<Longrightarrow> wf env seed st'"
  by (auto simp add: replaceOrder_def Let_def wf_cancelOrder split: sum.splits
      dest: wf_sendOrder [OF wf_cancelOrder])

lemma wf_downloadOrderStatuses:
  "wf env seed st \<Longrightarrow> wf env seed (downloadOrderStatuses env now st)"
  by (simp add: downloadOrderStatuses_def Let_def wf_post)

lemma wf_downloadOrderStatuses_then:
  "wf env seed st \<Longrightarrow> wf env seed (downloadOrderStatuses_then env resps st)"
  by (simp add: downloadOrderStatuses_then_def fold_preserves wf_post)

lemma wf_orderStatus_then: "wf env seed st \<Longrightarrow> wf env seed (orderStatus_then env trade r st)"
  by (simp add: orderStatus_then_def wf_trigger)

lemma wf_onRefreshPositions: "wf env seed st \<Longrightarrow> wf env seed (onRefreshPositions env st)"
  by (simp add: onRefreshPositions_def wf_post)

lemma wf_onRefreshPositions_then:
  "wf env seed st \<Longrightarrow> wf env seed (onRefreshPositions_then env res st)"
  by (simp add: onRefreshPositions_then_def Let_def fold_preserves wf_trigger)

lemmas wf_callbacks =
  wf_onTrades wf_onMarketData wf_sendOrder_then wf_cancelOrder_then
  wf_downloadOrderStatuses_then wf_orderStatus_then wf_onRefreshPositions_then

lemma wf_run_callback:
  "wf env seed st \<Longrightarrow> run_callback env now cb resp st = Some st' \<Longrightarrow> wf env seed st'"
  by (erule run_callback.elims) (auto simp add: wf_callbacks)

lemma wf_complete:
  "wf env seed st \<Longrightarrow> complete env now rid t c st = Some st' \<Longrightarrow> wf env seed st'"
  by (auto simp add: complete_def Let_def wf_filter wf_post
      split: option.splits sum.splits if_splits
      dest: wf_run_callback [OF wf_filter])

lemma wf_step: "wf env seed st \<Longrightarrow> step env st i = Some st' \<Longrightarrow> wf env seed st'"
proof (cases i)
  case (Pair now inp)
  assume w: "wf env seed st" and s: "step env st i = Some st'"
  show ?thesis
  proof (cases inp)
    case DownloadMarketData
    with Pair w s show ?thesis by (auto simp add: downloadMarketData_def wf_get)
  next
    case DownloadMarketTrades
    with Pair w s show ?thesis by (auto simp add: downloadMarketTrades_def Let_def wf_get)
  next
    case DownloadOrderStatuses
    with Pair w s show ?thesis by (auto simp add: wf_downloadOrderStatuses)
  next
    case OnRefreshPositions
    with Pair w s show ?thesis by (auto simp add: wf_onRefreshPositions)
  next
    case (SendOrder order)
    with Pair w s show ?thesis by (auto split: sum.splits dest: wf_sendOrder)
  next
    case (CancelOrder cancel)
    with Pair w s show ?thesis by (auto simp add: wf_cancelOrder)
  next
    case (ReplaceOrder replace)
    with Pair w s show ?thesis
      by (auto split: prod.splits simp add: wf_raise dest: wf_replaceOrder)
  next
    case (Completion rid t c)
    with Pair w s show ?thesis by (auto dest: wf_complete)
  qed
qed

lemma wf_run: "wf env seed st \<Longrightarrow> run env st inputs = Some st' \<Longrightarrow> wf env seed st'"
  by (induction inputs arbitrary: st) (auto split: option.splits dest: wf_step)

lemma wf_new_Chankura: "wf env now (new_Chankura env config pair_symbol now)"
proof -
  have "wf env now \<lparr> http = new_ChankuraHttp config now, symbol = pair_symbol, md_since = None,
               oe_since = now, dispatched = [], in_flight = [], emitted = [],
               thrown = [] \<rparr>"
    by (simp add: wf_def new_ChankuraHttp_def)
  then show ?thesis
    unfolding new_Chankura_def
    by (intro wf_onRefreshPositions) (simp add: downloadMarketTrades_def downloadMarketData_def Let_def wf_get)
qed

lemma Post_in_tonces: "Post opts c n \<in> set ds \<Longrightarrow> n \<in> set (tonces ds)"
  by (induction ds rule: tonces.induct) auto

lemma wf_in_flight_tonce:
  assumes "wf env seed st" and "map_of (in_flight st) rid = Some (Post opts c n, cb)"
  shows "n < nonce (http st)"
proof -
  from assms(2) have "(rid, Post opts c n, cb) \<in> set (in_flight st)"
    by (rule map_of_SomeD)
  with assms(1) have "rid < length (dispatched st)" and "Post opts c n = dispatched st ! rid"
    by (auto simp add: wf_def)
  then have "Post opts c n \<in> set (dispatched st)"
    by (metis nth_mem)
  then have "n \<in> set (tonces (dispatched st))"
    by (rule Post_in_tonces)
  with assms(1) show ?thesis
    by (simp add: wf_def)
qed

lemmas demo_gateway_defs =
  demo_gateway_def new_Chankura_def onRefreshPositions_def downloadMarketTrades_def
  downloadMarketData_def new_ChankuraHttp_def

lemma demo_parse_stale:
  "JSON_parse demo_env ''stale'' =
     Inr (DeleteOrderResponse \<lparr> message = Some ''error: Nonce is too small'' \<rparr>)"
  by (simp add: demo_env_def demo_platform_def demo_bodies_def)

lemma demo_stale: "nonce_too_small (DeleteOrderResponse \<lparr> message = Some ''error: Nonce is too small'' \<rparr>)"
  by (simp add: nonce_too_small_def indexOf_def)

lemma demo_gateway_positions_in_flight:
  "map_of (in_flight demo_gateway) 2 =
     Some (Post (fst (postOnce demo_env (new_ChankuraHttp demo_config 170123)
                        ''GET'' ''/members/me.json'' []))
             \<lparr> call.method = ''GET'', actionUrl = ''/members/me.json'', msg = [] \<rparr> 170123,
           OnRefreshPositionsThen)"
  by (simp add: demo_gateway_defs)

lemma demo_gateway_tonces: "tonces (dispatched demo_gateway) = [170123]"
  by (simp add: demo_gateway_defs)

lemma demo_gateway_nonce: "nonce (http demo_gateway) = 170124"
  by (simp add: demo_gateway_defs)

subsection \<open>The nonce\<close>

text \<open>
  C2. In every state that the gateway reaches from its construction, whatever the inputs:
  the transport's nonce was seeded with the clock reading of the constructor; the nonces
  of the signed requests dispatched so far, in the order of dispatch, are the consecutive
  integers from that seed up to the transport's nonce (not included), one per signed
  request, the retries of \<^verbatim>\<open>post\<close> among them; so they are strictly increasing
  and no two are equal; and the options of each signed request are those that
  \<open>postOnce\<close> computes from the nonce recorded with it.
\<close>

theorem nonces_strictly_increase:
  assumes "run env (new_Chankura env config pair_symbol now) inputs = Some st"
  shows "nonce (new_ChankuraHttp config now) = now
       \<and> tonces (dispatched st) = [now..nonce (http st) - 1]
       \<and> nonce (http st) = now + int (length (tonces (dispatched st)))
       \<and> sorted_wrt (<) (tonces (dispatched st))
       \<and> distinct (tonces (dispatched st))
       \<and> (\<forall>d \<in> set (dispatched st). \<forall>c n.
             call_of d = Some c \<and> tonce d = Some n \<longrightarrow>
               opts_of d = fst (postOnce env ((http st)\<lparr>nonce := n\<rparr>)
                                  (call.method c) (actionUrl c) (msg c)))"
proof -
  have w: "wf env now st"
    using wf_new_Chankura assms by (rule wf_run)
  then have t: "tonces (dispatched st) = [now..nonce (http st) - 1]" and le: "now \<le> nonce (http st)"
    by (simp_all add: wf_def)
  have "sorted_wrt (<) [now..nonce (http st) - 1]"
    by (simp add: strict_sorted_iff)
  with w t le show ?thesis
    by (simp add: new_ChankuraHttp_def wf_def)
qed

theorem nonces_strictly_increase_witness:
  "run demo_env (new_Chankura demo_env demo_config ''btczar'' 170123)
       [(186000, CancelOrder (demo_order GTC Limit (Some ''7''))), (188000, DownloadOrderStatuses)]
     = Some (downloadOrderStatuses demo_env 188000
               (cancelOrder demo_env 186000 (demo_order GTC Limit (Some ''7'')) demo_gateway))
   \<and> tonces (dispatched (downloadOrderStatuses demo_env 188000
               (cancelOrder demo_env 186000 (demo_order GTC Limit (Some ''7'')) demo_gateway)))
     = [170123, 170124, 170125]"
proof -
  have r: "run demo_env (new_Chankura demo_env demo_config ''btczar'' 170123)
       [(186000, CancelOrder (demo_order GTC Limit (Some ''7''))), (188000, DownloadOrderStatuses)]
     = Some (downloadOrderStatuses demo_env 188000
               (cancelOrder demo_env 186000 (demo_order GTC Limit (Some ''7'')) demo_gateway))"
    by (simp add: demo_gateway_def)
  have n: "nonce (http (downloadOrderStatuses demo_env 188000
               (cancelOrder demo_env 186000 (demo_order GTC Limit (Some ''7'')) demo_gateway))) = 170126"
    by (simp add: downloadOrderStatuses_def cancelOrder_def demo_gateway_nonce Let_def)
  have u: "[170123..170125] = [170123, 170124, 170125::int]"
    by (simp add: upto.simps)
  show ?thesis
    using nonces_strictly_increase [OF r] r n u
    by simp
qed

subsection \<open>The retry on a stale nonce\<close>

text \<open>
  C1. Let a signed request be in flight in a reachable state, dispatched by a call of
  \<^verbatim>\<open>post\<close> with arguments \<open>c\<close> and nonce \<open>n\<close>, and let it complete with
  a body that parses. When the body's message contains "Nonce is too small",
  \<^verbatim>\<open>post\<close> dispatches exactly one further request, with the same arguments \<open>c\<close>
  (method, path and request object) and the transport's current nonce, which is strictly
  greater than \<open>n\<close>; the caller's callback now waits for that request, and nothing
  else changes. Otherwise \<^verbatim>\<open>post\<close> dispatches nothing: it hands the response to
  the caller's callback there and then.
\<close>

theorem stale_nonce_is_retried_once:
  assumes "run env (new_Chankura env config pair_symbol t0) inputs = Some st"
      and "map_of (in_flight st) rid = Some (Post opts c n, cb)"
      and "JSON_parse env body = Inr d"
  shows "step env st (now, Completion rid t (Body body)) =
           (if nonce_too_small d
            then Some (post env (call.method c) (actionUrl c) (msg c) cb
                         (st\<lparr>in_flight := filter (\<lambda>e. fst e \<noteq> rid) (in_flight st)\<rparr>))
            else run_callback env now cb (new_Timestamped d t)
                   (st\<lparr>in_flight := filter (\<lambda>e. fst e \<noteq> rid) (in_flight st)\<rparr>))
       \<and> n < nonce (http st)
       \<and> (let retry = Post (fst (postOnce env (http st) (call.method c) (actionUrl c) (msg c)))
                          c (nonce (http st));
               st' = post env (call.method c) (actionUrl c) (msg c) cb
                       (st\<lparr>in_flight := filter (\<lambda>e. fst e \<noteq> rid) (in_flight st)\<rparr>)
           in dispatched st' = dispatched st @ [retry]
            \<and> in_flight st' = filter (\<lambda>e. fst e \<noteq> rid) (in_flight st) @
                                 [(length (dispatched st), retry, cb)]
            \<and> nonce (http st') = nonce (http st) + 1
            \<and> emitted st' = emitted st \<and> thrown st' = thrown st
            \<and> md_since st' = md_since st \<and> oe_since st' = oe_since st)"
proof -
  have w: "wf env t0 st"
    using wf_new_Chankura assms(1) by (rule wf_run)
  have lt: "n < nonce (http st)"
    using w assms(2) by (rule wf_in_flight_tonce)
  have c: "\<lparr> call.method = call.method c, actionUrl = actionUrl c, msg = msg c \<rparr> = c"
    by simp
  show ?thesis
    using assms(2,3) lt by (simp add: complete_resolved c Let_def)
qed

theorem stale_nonce_is_retried_once_witness:
  "run demo_env (new_Chankura demo_env demo_config ''btczar'' 170123) [] = Some demo_gateway
   \<and> map_of (in_flight demo_gateway) 2 =
       Some (Post (fst (postOnce demo_env (new_ChankuraHttp demo_config 170123)
                          ''GET'' ''/members/me.json'' []))
               \<lparr> call.method = ''GET'', actionUrl = ''/members/me.json'', msg = [] \<rparr> 170123,
             OnRefreshPositionsThen)
   \<and> JSON_parse demo_env ''stale'' =
       Inr (DeleteOrderResponse \<lparr> message = Some ''error: Nonce is too small'' \<rparr>)
   \<and> map_option (\<lambda>st. tonces (dispatched st))
        (step demo_env demo_gateway (171000, Completion 2 170900 (Body ''stale'')))
       = Some [170123, 170124]"
proof -
  have r: "run demo_env (new_Chankura demo_env demo_config ''btczar'' 170123) [] = Some demo_gateway"
    by (simp add: demo_gateway_def)
  show ?thesis
    using stale_nonce_is_retried_once
            [OF r demo_gateway_positions_in_flight demo_parse_stale, of 171000 170900]
          r demo_gateway_positions_in_flight demo_parse_stale demo_stale demo_gateway_tonces
          demo_gateway_nonce
    by (simp add: Let_def)
qed

subsection \<open>Loops and steps\<close>

lemma fold_trigger:
  "fold (\<lambda>x. trigger (f x)) xs st = st\<lparr>emitted := emitted st @ map f xs\<rparr>"
  by (induction xs arbitrary: st) (simp_all add: trigger_def)

lemma fold_post_frame [simp]:
  "symbol (fold (\<lambda>x. post env meth action (m x) (cb x)) xs st) = symbol st"
  "md_since (fold (\<lambda>x. post env meth action (m x) (cb x)) xs st) = md_since st"
  "oe_since (fold (\<lambda>x. post env meth action (m x) (cb x)) xs st) = oe_since st"
  "thrown (fold (\<lambda>x. post env meth action (m x) (cb x)) xs st) = thrown st"
  "emitted (fold (\<lambda>x. post env meth action (m x) (cb x)) xs st) = emitted st"
  "http (fold (\<lambda>x. post env meth action (m x) (cb x)) xs st) =
     (http st)\<lparr>nonce := nonce (http st) + int (length xs)\<rparr>"
  by (induction xs arbitrary: st) simp_all


lemma fold_post_tonces:
  "tonces (dispatched (fold (\<lambda>x. post env meth action (m x) (cb x)) xs st)) =
     tonces (dispatched st) @ [nonce (http st)..nonce (http st) + int (length xs) - 1]"
proof (induction xs arbitrary: st)
  case Nil
  then show ?case by simp
next
  case (Cons x xs)
  have "[nonce (http st)..nonce (http st) + int (length (x # xs)) - 1] =
          nonce (http st) # [nonce (http st) + 1..nonce (http st) + 1 + int (length xs) - 1]"
    by (subst upto_rec1) (simp_all add: algebra_simps)
  with Cons show ?case by simp
qed


lemma fold_post_dispatched_length:
  "length (dispatched (fold (\<lambda>x. post env meth action (m x) (cb x)) xs st)) =
     length (dispatched st) + length xs"
  by (induction xs arbitrary: st) simp_all

lemma fold_post_dispatched_prefix:
  "take (length (dispatched st)) (dispatched (fold (\<lambda>x. post env meth action (m x) (cb x)) xs st))
     = dispatched st"
proof (induction xs arbitrary: st)
  case Nil
  then show ?case by simp
next
  case (Cons x xs)
  have "take (length (dispatched st))
          (take (length (dispatched (post env meth action (m x) (cb x) st)))
             (dispatched (fold (\<lambda>x. post env meth action (m x) (cb x)) xs
                (post env meth action (m x) (cb x) st)))) = dispatched st"
    by (simp only: Cons) simp
  then show ?case by (simp add: min_def)
qed


lemma onTrades_eq:
  "onTrades env now resp st =
     st\<lparr> emitted := emitted st @
            map (\<lambda>trade. MarketTrade (new_GatewayMarketTrade
                   (parseFloat env (ChankuraMarketTrade.price trade))
                   (parseFloat env (ChankuraMarketTrade.volume trade))
                   (toDate env (ChankuraMarketTrade.created_at trade))
                   (md_since st = None)
                   (decodeSide (ChankuraMarketTrade.side trade))))
                (data resp),
          md_since := Some (now div 1000) \<rparr>"
  by (simp add: onTrades_def Let_def fold_trigger)

lemma onRefreshPositions_then_eq:
  "onRefreshPositions_then env res st =
     st\<lparr> emitted := emitted st @
            map (\<lambda>p. PositionUpdate (new_CurrencyPosition (parseFloat env (balance p))
                         (parseFloat env (locked p)) (toCurrency env (currency p))))
                (data res) \<rparr>"
  by (simp add: onRefreshPositions_then_def Let_def fold_trigger)

lemmas callback_defs =
  onTrades_eq onMarketData_def sendOrder_then_def cancelOrder_then_def
  downloadOrderStatuses_then_def orderStatus_then_def onRefreshPositions_then_eq

lemmas call_defs =
  downloadMarketData_def downloadMarketTrades_def downloadOrderStatuses_def
  onRefreshPositions_def sendOrder_def cancelOrder_def replaceOrder_def

lemma grows_refl: "grows st st"
  by (simp add: grows_def)

lemma take_take_prefix:
  "take (length xs) ys = xs \<Longrightarrow> take (length ys) zs = ys \<Longrightarrow> take (length xs) zs = xs"
  by (metis append_eq_conv_conj append_take_drop_id append.assoc)

lemma grows_trans: "grows st st' \<Longrightarrow> grows st' st'' \<Longrightarrow> grows st st''"
  unfolding grows_def by (auto intro: take_take_prefix)

lemma grows_run_callback: "run_callback env now cb resp st = Some st' \<Longrightarrow> grows st st'"
  by (erule run_callback.elims)
     (auto simp add: grows_def callback_defs Let_def fold_post_dispatched_prefix
        split: option.splits)

lemma grows_complete: "complete env now rid t c st = Some st' \<Longrightarrow> grows st st'"
  by (auto simp add: complete_def Let_def grows_refl
      split: option.splits sum.splits if_splits dest!: grows_run_callback)
     (auto simp add: grows_def)

lemma grows_step: "step env st i = Some st' \<Longrightarrow> grows st st'"
proof (cases i)
  case (Pair now inp)
  assume s: "step env st i = Some st'"
  show ?thesis
  proof (cases inp)
    case (Completion rid t c)
    with Pair s show ?thesis by (auto dest: grows_complete)
  next
    case (SendOrder order)
    with Pair s show ?thesis
      by (auto simp add: grows_def call_defs Let_def split: sum.splits)
  next
    case (ReplaceOrder replace)
    with Pair s show ?thesis
      by (auto simp add: grows_def call_defs Let_def split: sum.splits prod.splits)
  qed (use Pair s in \<open>auto simp add: grows_def call_defs Let_def\<close>)
qed

lemma grows_run: "run env st inputs = Some st' \<Longrightarrow> grows st st'"
proof (induction inputs arbitrary: st)
  case Nil
  then show ?case by (simp add: grows_refl)
next
  case (Cons i inputs)
  then show ?case
    by (auto split: option.splits intro: grows_trans dest: grows_step)
qed

lemma demo_gateway_trades_in_flight:
  "map_of (in_flight demo_gateway) 1 = Some (dispatched demo_gateway ! 1, OnTrades)"
  by (simp add: demo_gateway_defs nth_append)

lemma demo_parse_trades: "JSON_parse demo_env ''trades'' = Inr (MarketTradesResponse [demo_trade])"
  by (simp add: demo_env_def demo_platform_def demo_bodies_def)


subsection \<open>The cursor of the market-trades poller\<close>

lemma trades_batch_Completion:
  "map_of (in_flight st) rid = Some (d, OnTrades) \<Longrightarrow>
   JSON_parse env body = Inr (MarketTradesResponse batch) \<Longrightarrow>
   trades_batch env st (now, Completion rid t (Body body)) = Some batch"
  by (simp add: trades_batch_def)

lemma trades_batch_SomeD:
  assumes "trades_batch env st i = Some batch"
  shows "\<exists>rid t body d. snd i = Completion rid t (Body body)
           \<and> map_of (in_flight st) rid = Some (d, OnTrades)
           \<and> JSON_parse env body = Inr (MarketTradesResponse batch)"
  using assms
  by (auto simp add: trades_batch_def
      split: input.splits completion.splits option.splits prod.splits callback.splits
        sum.splits payload.splits)

lemma step_trades_batch:
  assumes "map_of (in_flight st) rid = Some (d, OnTrades)"
      and "JSON_parse env body = Inr (MarketTradesResponse batch)"
  shows "step env st (now, Completion rid t (Body body)) =
           Some (st\<lparr> in_flight := filter (\<lambda>e. fst e \<noteq> rid) (in_flight st),
                      emitted := emitted st @
                        map (\<lambda>trade. MarketTrade (new_GatewayMarketTrade
                               (parseFloat env (ChankuraMarketTrade.price trade))
                               (parseFloat env (ChankuraMarketTrade.volume trade))
                               (toDate env (ChankuraMarketTrade.created_at trade))
                               (md_since st = None)
                               (decodeSide (ChankuraMarketTrade.side trade))))
                            batch,
                      md_since := Some (now div 1000) \<rparr>)"
proof -
  have "nonce_too_small (MarketTradesResponse batch) = False"
    by (simp add: nonce_too_small_def)
  then show ?thesis
    using assms by (simp add: complete_resolved onTrades_eq)
qed

lemma md_since_run_callback:
  "run_callback env now cb resp st = Some st' \<Longrightarrow>
   md_since st' = md_since st \<or> (\<exists>batch. cb = OnTrades \<and> data resp = MarketTradesResponse batch)"
  by (erule run_callback.elims) (auto simp add: callback_defs split: option.splits)

lemma md_since_complete:
  assumes "complete env now rid t c st = Some st'"
      and "trades_batch env st (now, Completion rid t c) = None"
  shows "md_since st' = md_since st"
proof (cases "map_of (in_flight st) rid")
  case None
  with assms(1) show ?thesis by (simp add: complete_def)
next
  case (Some e)
  obtain d cb where e: "e = (d, cb)" by (cases e)
  let ?st1 = "st\<lparr>in_flight := filter (\<lambda>e. fst e \<noteq> rid) (in_flight st)\<rparr>"
  show ?thesis
  proof (cases "settle env t c")
    case (Inl err)
    with assms(1) Some e show ?thesis by (auto simp add: complete_def)
  next
    case (Inr resp)
    show ?thesis
    proof (cases "call_of d \<noteq> None \<and> nonce_too_small (data resp)")
      case True
      with assms(1) Some e Inr show ?thesis
        by (auto simp add: complete_def Let_def)
    next
      case False
      with assms(1) Some e Inr have r: "run_callback env now cb resp ?st1 = Some st'"
        by (auto simp add: complete_def Let_def split: option.splits if_splits)
      from md_since_run_callback [OF r]
      show ?thesis
      proof
        assume "md_since st' = md_since ?st1"
        then show ?thesis by simp
      next
        assume "\<exists>batch. cb = OnTrades \<and> data resp = MarketTradesResponse batch"
        then obtain batch where cb: "cb = OnTrades" and b: "data resp = MarketTradesResponse batch"
          by blast
        from Inr b obtain body where "c = Body body"
          and "JSON_parse env body = Inr (MarketTradesResponse batch)"
          by (auto simp add: settle_def split: completion.splits sum.splits)
        with Some e cb have "trades_batch env st (now, Completion rid t c) = Some batch"
          by (simp add: trades_batch_def)
        with assms(2) show ?thesis by simp
      qed
    qed
  qed
qed

lemma md_since_step:
  assumes "step env st i = Some st'" and "trades_batch env st i = None"
  shows "md_since st' = md_since st"
proof (cases i)
  case (Pair now inp)
  show ?thesis
  proof (cases inp)
    case (Completion rid t c)
    with Pair assms show ?thesis by (auto dest: md_since_complete)
  next
    case (SendOrder order)
    with Pair assms(1) show ?thesis
      by (auto simp add: call_defs Let_def split: sum.splits)
  next
    case (ReplaceOrder replace)
    with Pair assms(1) show ?thesis
      by (auto simp add: call_defs Let_def split: sum.splits prod.splits)
  qed (use Pair assms(1) in \<open>auto simp add: call_defs Let_def\<close>)
qed

lemma md_since_step_batch:
  assumes "step env st i = Some st'" and "trades_batch env st i = Some batch"
  shows "md_since st' = Some (fst i div 1000)
       \<and> emitted st' = emitted st @
            map (\<lambda>trade. MarketTrade (new_GatewayMarketTrade
                   (parseFloat env (ChankuraMarketTrade.price trade))
                   (parseFloat env (ChankuraMarketTrade.volume trade))
                   (toDate env (ChankuraMarketTrade.created_at trade))
                   (md_since st = None)
                   (decodeSide (ChankuraMarketTrade.side trade))))
                batch"
proof -
  from trades_batch_SomeD [OF assms(2)] obtain rid t body d
    where i: "snd i = Completion rid t (Body body)"
      and f: "map_of (in_flight st) rid = Some (d, OnTrades)"
      and p: "JSON_parse env body = Inr (MarketTradesResponse batch)"
    by blast
  from i have "i = (fst i, Completion rid t (Body body))"
    by (cases i) simp
  with step_trades_batch [OF f p, of "fst i" t] assms(1) show ?thesis
    by auto
qed

lemma cold_iff_no_batch:
  "run env s inputs = Some st \<Longrightarrow>
   (md_since st = None) = (md_since s = None \<and> batches env s inputs = 0)"
proof (induction inputs arbitrary: s)
  case Nil
  then show ?case by simp
next
  case (Cons i inputs)
  from Cons.prems obtain s' where s: "step env s i = Some s'" and r: "run env s' inputs = Some st"
    by (auto split: option.splits)
  show ?case
  proof (cases "trades_batch env s i")
    case None
    with md_since_step [OF s None] Cons.IH [OF r] s show ?thesis by simp
  next
    case (Some batch)
    with md_since_step_batch [OF s Some] Cons.IH [OF r] s show ?thesis by simp
  qed
qed

subsection \<open>The market-trades poller\<close>

text \<open>
  C9. The gateway is constructed with no trades cursor. When a trades request completes
  with a body that parses to a batch of trades, the gateway emits one \<open>MarketTrade\<close>
  event per trade of the batch, in order, and every one of them carries the same flag:
  whether the cursor was unset when the batch arrived. It then sets the cursor, and from
  then on the cursor is set in every state the gateway reaches, whatever the inputs. No
  input but such a batch changes the cursor. So in every state that the gateway reaches
  from its construction the cursor is unset exactly when no batch has been processed so
  far: the trades of the first batch ever processed carry \<open>True\<close>, those of every
  later batch \<open>False\<close>.
\<close>

theorem first_batch_is_flagged:
  assumes "map_of (in_flight st) rid = Some (d, OnTrades)"
      and "JSON_parse env body = Inr (MarketTradesResponse batch)"
  shows "md_since (new_Chankura env config pair_symbol t0) = None
       \<and> step env st (now, Completion rid t (Body body)) =
           Some (st\<lparr> in_flight := filter (\<lambda>e. fst e \<noteq> rid) (in_flight st),
                      emitted := emitted st @
                        map (\<lambda>trade. MarketTrade (new_GatewayMarketTrade
                               (parseFloat env (ChankuraMarketTrade.price trade))
                               (parseFloat env (ChankuraMarketTrade.volume trade))
                               (toDate env (ChankuraMarketTrade.created_at trade))
                               (md_since st = None)
                               (decodeSide (ChankuraMarketTrade.side trade))))
                            batch,
                      md_since := Some (now div 1000) \<rparr>)
       \<and> (\<forall>st' inputs st''.
             step env st (now, Completion rid t (Body body)) = Some st'
             \<and> run env st' inputs = Some st'' \<longrightarrow> md_since st'' \<noteq> None)
       \<and> trades_batch env st (now, Completion rid t (Body body)) = Some batch
       \<and> (\<forall>inputs0 s.
             run env (new_Chankura env config pair_symbol t0) inputs0 = Some s \<longrightarrow>
               (md_since s = None) =
               (batches env (new_Chankura env config pair_symbol t0) inputs0 = 0))
       \<and> (\<forall>s i s'. step env s i = Some s' \<and> trades_batch env s i = None \<longrightarrow>
             md_since s' = md_since s)"
proof -
  have cold: "md_since (new_Chankura env config pair_symbol t0) = None"
    by (simp add: new_Chankura_def call_defs Let_def)
  have s: "step env st (now, Completion rid t (Body body)) =
           Some (st\<lparr> in_flight := filter (\<lambda>e. fst e \<noteq> rid) (in_flight st),
                      emitted := emitted st @
                        map (\<lambda>trade. MarketTrade (new_GatewayMarketTrade
                               (parseFloat env (ChankuraMarketTrade.price trade))
                               (parseFloat env (ChankuraMarketTrade.volume trade))
                               (toDate env (ChankuraMarketTrade.created_at trade))
                               (md_since st = None)
                               (decodeSide (ChankuraMarketTrade.side trade))))
                            batch,
                      md_since := Some (now div 1000) \<rparr>)"
    using assms by (rule step_trades_batch)
  have warm: "md_since st'' \<noteq> None"
    if "step env st (now, Completion rid t (Body body)) = Some st'"
      and "run env st' inputs = Some st''" for st' inputs st''
  proof -
    from that(1) s have "md_since st' \<noteq> None" by auto
    with grows_run [OF that(2)] show ?thesis by (simp add: grows_def)
  qed
  have b: "trades_batch env st (now, Completion rid t (Body body)) = Some batch"
    using assms by (rule trades_batch_Completion)
  have first: "(md_since s = None) =
                 (batches env (new_Chankura env config pair_symbol t0) inputs0 = 0)"
    if "run env (new_Chankura env config pair_symbol t0) inputs0 = Some s" for inputs0 s
    using cold_iff_no_batch [OF that] cold by simp
  have frame: "md_since s' = md_since s"
    if "step env s i = Some s' \<and> trades_batch env s i = None" for s i s'
    using that by (auto dest: md_since_step)
  from cold s warm b first frame show ?thesis by blast
qed

theorem first_batch_is_flagged_witness:
  "map_of (in_flight demo_gateway) 1 = Some (dispatched demo_gateway ! 1, OnTrades)
   \<and> JSON_parse demo_env ''trades'' = Inr (MarketTradesResponse [demo_trade])
   \<and> run demo_env (new_Chankura demo_env demo_config ''btczar'' 170123) [] = Some demo_gateway
   \<and> batches demo_env (new_Chankura demo_env demo_config ''btczar'' 170123) [] = 0
   \<and> md_since demo_gateway = None
   \<and> map_option (\<lambda>st. (emitted st, md_since st))
        (step demo_env demo_gateway (171999, Completion 1 171900 (Body ''trades'')))
       = Some ([MarketTrade (new_GatewayMarketTrade ''50'' ''0.1'' ''2024-01-01T00:00:00Z''
                               True Bid)], Some 171)"
proof -
  note th = first_batch_is_flagged
              [OF demo_gateway_trades_in_flight demo_parse_trades, of demo_config "''btczar''" 170123
                 171999 171900]
  have r: "run demo_env (new_Chankura demo_env demo_config ''btczar'' 170123) [] = Some demo_gateway"
    by (simp add: demo_gateway_def)
  have b: "batches demo_env (new_Chankura demo_env demo_config ''btczar'' 170123) [] = 0"
    by simp
  from th r have "(md_since demo_gateway = None) =
                    (batches demo_env (new_Chankura demo_env demo_config ''btczar'' 170123) [] = 0)"
    by blast
  with b have c: "md_since demo_gateway = None"
    by simp
  from th have "step demo_env demo_gateway (171999, Completion 1 171900 (Body ''trades'')) =
           Some (demo_gateway\<lparr> in_flight := filter (\<lambda>e. fst e \<noteq> 1) (in_flight demo_gateway),
                      emitted := emitted demo_gateway @
                        map (\<lambda>trade. MarketTrade (new_GatewayMarketTrade
                               (parseFloat demo_env (ChankuraMarketTrade.price trade))
                               (parseFloat demo_env (ChankuraMarketTrade.volume trade))
                               (toDate demo_env (ChankuraMarketTrade.created_at trade))
                               (md_since demo_gateway = None)
                               (decodeSide (ChankuraMarketTrade.side trade))))
                            [demo_trade],
                      md_since := Some (171999 div 1000) \<rparr>)"
    by blast
  with demo_gateway_trades_in_flight demo_parse_trades r b c demo_gateway_emitted
  show ?thesis
    by (simp add: demo_trade_def demo_env_def demo_platform_def decodeSide_def)
qed



subsection \<open>The order reconciliation\<close>






lemma demo_parse_rejected:
  "JSON_parse demo_env ''rejected'' =
     Inr (NewOrderResponse \<lparr> ChankuraNewOrderResponse.id = None,
                             ChankuraNewOrderResponse.message = Some ''insufficient funds'' \<rparr>)"
  by (simp add: demo_env_def demo_platform_def demo_bodies_def)

lemma demo_rejected_not_stale:
  "\<not> nonce_too_small (NewOrderResponse \<lparr> ChankuraNewOrderResponse.id = None,
                             ChankuraNewOrderResponse.message = Some ''insufficient funds'' \<rparr>)"
  by (simp add: nonce_too_small_def indexOf_def)

subsection \<open>Submitting an order\<close>

text \<open>
  C5. Let \<^verbatim>\<open>sendOrder\<close> return, having submitted the order. It has then emitted
  exactly one update, with the order id and the latency and nothing else, and the
  create-order request is in flight with the callback of this order. Whatever happens
  next, that update stays where it is, before everything emitted later. When, in a later
  state, a request with this callback completes with a create-order response that does
  not report a stale nonce, the gateway emits exactly one further update for the order:
  status \<open>Rejected\<close> with the venue's message and no exchange id when the response has
  a message, else status \<open>Working\<close> with the \<^verbatim>\<open>id\<close> of the response as exchange
  id; both carry the time of receipt.
\<close>

theorem sendOrder_latency_then_resolution:
  assumes "sendOrder env now order st = Inr st1"
      and "run env st1 inputs = Some st2"
      and "map_of (in_flight st2) rid = Some (d, SendOrderThen order)"
      and "JSON_parse env body = Inr (NewOrderResponse r)"
      and "\<not> nonce_too_small (NewOrderResponse r)"
  shows "emitted st1 = emitted st @
           [OrderUpdate (no_fields
              \<lparr> OrderStatusUpdate.orderId := Some (OrderStatusReport.orderId order),
                computationalLatency := Some (fastDiff now (OrderStatusReport.time order)) \<rparr>)]
       \<and> map (\<lambda>e. snd (snd e)) (in_flight st1) =
           map (\<lambda>e. snd (snd e)) (in_flight st) @ [SendOrderThen order]
       \<and> take (length (emitted st) + 1) (emitted st2) = emitted st @
           [OrderUpdate (no_fields
              \<lparr> OrderStatusUpdate.orderId := Some (OrderStatusReport.orderId order),
                computationalLatency := Some (fastDiff now (OrderStatusReport.time order)) \<rparr>)]
       \<and> step env st2 (now', Completion rid t (Body body)) =
           Some (st2\<lparr> in_flight := filter (\<lambda>e. fst e \<noteq> rid) (in_flight st2),
                       emitted := emitted st2 @
                         [OrderUpdate
                            (case ChankuraNewOrderResponse.message r of
                               Some m \<Rightarrow> no_fields
                                 \<lparr> OrderStatusUpdate.orderId := Some (OrderStatusReport.orderId order),
                                   orderStatus := Some Rejected,
                                   rejectMessage := Some m,
                                   OrderStatusUpdate.time := Some t \<rparr>
                             | None \<Rightarrow> no_fields
                                 \<lparr> OrderStatusUpdate.orderId := Some (OrderStatusReport.orderId order),
                                   OrderStatusUpdate.exchangeId := ChankuraNewOrderResponse.id r,
                                   orderStatus := Some Working,
                                   OrderStatusUpdate.time := Some t \<rparr>)] \<rparr>)"
proof -
  let ?lat = "OrderUpdate (no_fields
              \<lparr> OrderStatusUpdate.orderId := Some (OrderStatusReport.orderId order),
                computationalLatency := Some (fastDiff now (OrderStatusReport.time order)) \<rparr>)"
  have e1: "emitted st1 = emitted st @ [?lat]"
    and f1: "map (\<lambda>e. snd (snd e)) (in_flight st1) =
               map (\<lambda>e. snd (snd e)) (in_flight st) @ [SendOrderThen order]"
    using assms(1) by (auto simp add: sendOrder_def split: sum.splits)
  have "take (length (emitted st1)) (emitted st2) = emitted st1"
    using grows_run [OF assms(2)] by (simp add: grows_def)
  with e1 have e2: "take (length (emitted st) + 1) (emitted st2) = emitted st @ [?lat]"
    by simp
  have s: "step env st2 (now', Completion rid t (Body body)) =
             Some (sendOrder_then order (new_Timestamped r t)
                     (st2\<lparr>in_flight := filter (\<lambda>e. fst e \<noteq> rid) (in_flight st2)\<rparr>))"
    using assms(3,4,5) by (simp add: complete_resolved)
  show ?thesis
    unfolding s using e1 f1 e2
    by (simp add: sendOrder_then_def trigger_def split: option.splits)
qed

lemma demo_sendOrder:
  "sendOrder demo_env 186000 (demo_order GTC Limit None) demo_gateway = Inr demo_submitted"
  by (simp add: sendOrder_def convertToOrderRequest_def encodeTimeInForce_def demo_order_def
      demo_submitted_def fastDiff_def demo_env_def demo_platform_def demo_gateway_defs)

lemma demo_submitted_in_flight:
  "map_of (in_flight demo_submitted) 3 =
     Some (dispatched demo_submitted ! 3, SendOrderThen (demo_order GTC Limit None))"
  by (simp add: demo_submitted_def demo_gateway_defs nth_append)

theorem sendOrder_latency_then_resolution_witness:
  "sendOrder demo_env 186000 (demo_order GTC Limit None) demo_gateway = Inr demo_submitted
   \<and> run demo_env demo_submitted [] = Some demo_submitted
   \<and> map_of (in_flight demo_submitted) 3 =
       Some (dispatched demo_submitted ! 3, SendOrderThen (demo_order GTC Limit None))
   \<and> JSON_parse demo_env ''rejected'' =
       Inr (NewOrderResponse \<lparr> ChankuraNewOrderResponse.id = None,
                               ChankuraNewOrderResponse.message = Some ''insufficient funds'' \<rparr>)
   \<and> \<not> nonce_too_small (NewOrderResponse \<lparr> ChankuraNewOrderResponse.id = None,
                               ChankuraNewOrderResponse.message = Some ''insufficient funds'' \<rparr>)
   \<and> map_option emitted
        (step demo_env demo_submitted (187000, Completion 3 186900 (Body ''rejected'')))
       = Some [OrderUpdate (no_fields \<lparr> OrderStatusUpdate.orderId := Some ''o1'',
                                          computationalLatency := Some 10 \<rparr>),
               OrderUpdate (no_fields \<lparr> OrderStatusUpdate.orderId := Some ''o1'',
                                          orderStatus := Some Rejected,
                                          rejectMessage := Some ''insufficient funds'',
                                          OrderStatusUpdate.time := Some 186900 \<rparr>)]"
proof -
  have r: "run demo_env demo_submitted [] = Some demo_submitted"
    by simp
  have e: "emitted demo_submitted =
             [OrderUpdate (no_fields \<lparr> OrderStatusUpdate.orderId := Some ''o1'',
                                        computationalLatency := Some 10 \<rparr>)]"
    by (simp add: demo_submitted_def demo_gateway_emitted)
  show ?thesis
    using sendOrder_latency_then_resolution
            [OF demo_sendOrder r demo_submitted_in_flight demo_parse_rejected
                demo_rejected_not_stale, of 187000 186900]
          demo_sendOrder r demo_submitted_in_flight demo_parse_rejected demo_rejected_not_stale e
    by (simp add: demo_order_def)
qed

subsection \<open>Faults of submit and cancel\<close>




subsection \<open>Cancelling an order that has no exchange id\<close>



subsection \<open>The cursors of the pollers\<close>








lemma number_string_demo: "number_string 170123 = ''170123''"
  by code_simp

subsection \<open>The signature\<close>

text \<open>
  C7. What \<open>postOnce\<close> signs and where it puts the signature: the payload is
  \<^verbatim>\<open>METHOD|api/v2<path>|access_key=<key>&tonce=<nonce>&<querystring>\<close>, with no
  slash before \<^verbatim>\<open>api\<close>, and the URL ends with \<^verbatim>\<open>&signature<digest>\<close>, with
  no equals sign between the name and the digest. The second equation is the request for
  the detail of order 7.
\<close>

theorem postOnce_payload_and_url:
  "Options.url (fst (postOnce env h meth action m)) =
     baseUrl h @ ''/'' @ action @ ''?'' @
     ''access_key='' @ apiKey h @ ''&tonce='' @ number_string (nonce h) @ ''&'' @ stringify env m @
     ''&signature'' @
     createHmac_sha256 env (secret h)
       (meth @ ''|api/v2'' @ action @ ''|'' @
        ''access_key='' @ apiKey h @ ''&tonce='' @ number_string (nonce h) @ ''&'' @ stringify env m)
   \<and> Options.url (fst (postOnce demo_env (new_ChankuraHttp demo_config 170123)
                          ''GET'' ''order.json'' [(''id'', QStr ''7'')])) =
       ''https://venue/api/v2/order.json?access_key=key&tonce=170123&id=7&signaturehmac(secret,GET|api/v2order.json|access_key=key&tonce=170123&id=7)''"
  by (simp add: postOnce_def Let_def number_string_demo new_ChankuraHttp_def demo_config_def
      demo_env_def demo_platform_def)

end
